theory Spec2Isabelle
  imports Main "HOL-Library.Word" "HOL-Library.Char_ord" "HOL-Library.List_Lexorder"
    "HOL-Library.Sublist" "HOL-Library.Multiset"
begin

unbundle bit_operations_syntax

section \<open>The sentiment oracle publisher: data-integrity protocol\<close>

text \<open>
  This theory embeds the three scripts of \<^verbatim>\<open>oracle-publisher\<close>
  (\<^verbatim>\<open>demo.py\<close>, \<^verbatim>\<open>verify_tampering.py\<close>, \<^verbatim>\<open>compare_hashes.py\<close>) together with
  the library operations they call. The scripts are a few lines each, so most of what
  they compute is decided by the Python standard library (\<^verbatim>\<open>json\<close>, \<^verbatim>\<open>base64\<close>,
  \<^verbatim>\<open>hashlib\<close>) and by \<^verbatim>\<open>cryptography\<close>'s Ed25519 keys. The library operations are
  modelled first, each after its CPython implementation with the options the scripts
  pass; then every function of the scripts is translated line by line on top of them.

  Conventions.
  \<^item> A Python exception is a value of \<open>py_error\<close>; a function that can raise returns
    \<open>py_error + 'a\<close> with \<open>Inl\<close> for the exception.
  \<^item> \<^verbatim>\<open>bytes\<close> is \<open>byte list\<close> with \<open>byte = 8 word\<close>.
  \<^item> A \<^verbatim>\<open>str\<close> inside a JSON document is a \<open>pystr\<close>, the list of its code points, so
    that text beyond Latin-1 (a tweet with an emoji) is covered. Text that the scripts
    or the libraries build themselves is ASCII (file names, JSON text written with
    \<^verbatim>\<open>ensure_ascii\<close>, base64 and hexadecimal text) and is a \<open>string\<close>, whose
    characters stand for the code points below 256; \<open>str\<close> embeds it in \<open>pystr\<close>.
  \<^item> A \<^verbatim>\<open>dict\<close> is an association list in insertion order; Python keeps the keys of
    a dict distinct, which the predicate \<open>wf_json\<close> states where a result needs it.
  \<^item> \<^verbatim>\<open>print\<close> calls are not modelled, the lines of the comparison report apart;
    the standard output is taken to accept every Unicode text.
  \<^item> The limits of the interpreter are not modelled: the recursion limit, and the limit
    on the number of digits of an \<^verbatim>\<open>int\<close> converted to or from text.
\<close>

subsection \<open>Text\<close>

type_synonym pystr = "nat list"

definition str :: "string \<Rightarrow> pystr" where
  "str s = map of_char s"

subsection \<open>Exceptions\<close>

datatype py_error =
    FileNotFoundError
  | JSONDecodeError
  | KeyError pystr
  | TypeError
  | ValueError
  | binascii_Error
  | UnicodeDecodeError
  | InvalidSignature

type_synonym byte = "8 word"

text \<open>Sequencing of calls that may raise: the first exception ends the computation.\<close>

fun and_then :: "'e + 'a \<Rightarrow> ('a \<Rightarrow> 'e + 'b) \<Rightarrow> 'e + 'b" where
  "and_then (Inl e) f = Inl e"
| "and_then (Inr x) f = f x"

subsection \<open>Bytes\<close>

text \<open>
  \<^verbatim>\<open>str.encode('utf-8')\<close>: one byte for a code point below 128, two bytes for the
  code points from 128 to 255.
\<close>

definition utf8_char :: "char \<Rightarrow> byte list" where
  "utf8_char c =
     (let n = (of_char c :: nat) in
      if n < 0x80 then [of_nat n] else [of_nat (0xC0 + n div 64), of_nat (0x80 + n mod 64)])"

definition encode_utf8 :: "string \<Rightarrow> byte list" where
  "encode_utf8 s = concat (map utf8_char s)"

text \<open>
  \<^verbatim>\<open>bytes.decode('utf-8')\<close>, restricted to what the scripts decode, namely base64
  text: a byte below 128 is the character of that number. Only this ASCII range is
  modelled; on any other byte the model answers \<open>UnicodeDecodeError\<close>.
\<close>

fun decode_utf8 :: "byte list \<Rightarrow> py_error + string" where
  "decode_utf8 [] = Inr []"
| "decode_utf8 (b # bs) =
     (if b < 0x80 then and_then (decode_utf8 bs) (\<lambda>s. Inr (char_of (unat b) # s))
      else Inl UnicodeDecodeError)"

subsection \<open>\<^verbatim>\<open>base64\<close> and \<^verbatim>\<open>binascii\<close>\<close>

definition table_b2a_base64 :: "byte list" where
  "table_b2a_base64 = map (\<lambda>c. of_nat (of_char c))
     ''ABCDEFGHIJKLMNOPQRSTUVWXYZabcdefghijklmnopqrstuvwxyz0123456789+/''"

definition BASE64_PAD :: byte where
  "BASE64_PAD = 61"

definition b2a :: "byte \<Rightarrow> byte" where
  "b2a s = table_b2a_base64 ! unat s"

text \<open>
  \<^verbatim>\<open>binascii.b2a_base64(data, newline=False)\<close>: three bytes become four characters;
  a rest of one or two bytes is padded with \<^verbatim>\<open>=\<close>.
\<close>

fun b2a_base64 :: "byte list \<Rightarrow> byte list" where
  "b2a_base64 [] = []"
| "b2a_base64 [a] =
     [b2a (drop_bit 2 a), b2a (push_bit 4 (a AND 3)), BASE64_PAD, BASE64_PAD]"
| "b2a_base64 [a, b] =
     [b2a (drop_bit 2 a), b2a (push_bit 4 (a AND 3) OR drop_bit 4 b),
      b2a (push_bit 2 (b AND 15)), BASE64_PAD]"
| "b2a_base64 (a # b # c # rest) =
     [b2a (drop_bit 2 a), b2a (push_bit 4 (a AND 3) OR drop_bit 4 b),
      b2a (push_bit 2 (b AND 15) OR drop_bit 6 c), b2a (c AND 63)] @ b2a_base64 rest"

definition b64encode :: "byte list \<Rightarrow> byte list" where
  "b64encode s = b2a_base64 s"

fun index_of :: "'a \<Rightarrow> 'a list \<Rightarrow> nat" where
  "index_of x [] = 0"
| "index_of x (y # ys) = (if x = y then 0 else Suc (index_of x ys))"

text \<open>The decoding table: the value of a base64 character, 255 for any other byte.\<close>

definition table_a2b_base64 :: "byte \<Rightarrow> byte" where
  "table_a2b_base64 ch =
     (if ch \<in> set table_b2a_base64 then of_nat (index_of ch table_b2a_base64) else 255)"

text \<open>
  \<^verbatim>\<open>binascii.a2b_base64(data, strict_mode=False)\<close>, the loop of CPython's
  \<^verbatim>\<open>binascii.c\<close> with its variables \<open>quad_pos\<close>, \<open>leftchar\<close> and \<open>pads\<close>: bytes
  outside the alphabet are skipped, a complete pad sequence ends the decoding, and an
  incomplete quad at the end of the input raises \<^verbatim>\<open>binascii.Error\<close>.
\<close>

fun a2b_loop :: "nat \<Rightarrow> byte \<Rightarrow> nat \<Rightarrow> byte list \<Rightarrow> byte list \<Rightarrow> py_error + byte list" where
  "a2b_loop quad_pos leftchar pads out [] =
     (if quad_pos \<noteq> 0 then Inl binascii_Error else Inr out)"
| "a2b_loop quad_pos leftchar pads out (ch # rest) =
     (if ch = BASE64_PAD then
        (if 2 \<le> quad_pos \<and> 4 \<le> quad_pos + (pads + 1) then Inr out
         else a2b_loop quad_pos leftchar (if 2 \<le> quad_pos then pads + 1 else pads) out rest)
      else
        (let this_ch = table_a2b_base64 ch in
         if 64 \<le> this_ch then a2b_loop quad_pos leftchar pads out rest
         else if quad_pos = 0 then a2b_loop 1 this_ch 0 out rest
         else if quad_pos = 1 then
           a2b_loop 2 (this_ch AND 15) 0 (out @ [push_bit 2 leftchar OR drop_bit 4 this_ch]) rest
         else if quad_pos = 2 then
           a2b_loop 3 (this_ch AND 3) 0 (out @ [push_bit 4 leftchar OR drop_bit 2 this_ch]) rest
         else
           a2b_loop 0 0 0 (out @ [push_bit 6 leftchar OR this_ch]) rest))"

definition a2b_base64 :: "byte list \<Rightarrow> py_error + byte list" where
  "a2b_base64 s = a2b_loop 0 0 0 [] s"

subsection \<open>\<^verbatim>\<open>hashlib.sha256\<close>\<close>

type_synonym u32 = "32 word"

text \<open>
  The 64 round constants: the first 32 bits of the fractional parts of the cube roots of
  the first 64 primes.
\<close>

definition sha256_K :: "u32 list" where
  "sha256_K =
    [1116352408, 1899447441, 3049323471, 3921009573, 961987163, 1508970993,
     2453635748, 2870763221, 3624381080, 310598401, 607225278, 1426881987,
     1925078388, 2162078206, 2614888103, 3248222580, 3835390401, 4022224774,
     264347078, 604807628, 770255983, 1249150122, 1555081692, 1996064986,
     2554220882, 2821834349, 2952996808, 3210313671, 3336571891, 3584528711,
     113926993, 338241895, 666307205, 773529912, 1294757372, 1396182291,
     1695183700, 1986661051, 2177026350, 2456956037, 2730485921, 2820302411,
     3259730800, 3345764771, 3516065817, 3600352804, 4094571909, 275423344,
     430227734, 506948616, 659060556, 883997877, 958139571, 1322822218,
     1537002063, 1747873779, 1955562222, 2024104815, 2227730452, 2361852424,
     2428436474, 2756734187, 3204031479, 3329325298]"

definition rotr :: "nat \<Rightarrow> u32 \<Rightarrow> u32" where
  "rotr n x = drop_bit n x OR push_bit (32 - n) x"

definition Ch :: "u32 \<Rightarrow> u32 \<Rightarrow> u32 \<Rightarrow> u32" where
  "Ch x y z = (x AND y) XOR (NOT x AND z)"

definition Maj :: "u32 \<Rightarrow> u32 \<Rightarrow> u32 \<Rightarrow> u32" where
  "Maj x y z = (x AND y) XOR (x AND z) XOR (y AND z)"

definition Sigma0 :: "u32 \<Rightarrow> u32" where
  "Sigma0 x = rotr 2 x XOR rotr 13 x XOR rotr 22 x"

definition Sigma1 :: "u32 \<Rightarrow> u32" where
  "Sigma1 x = rotr 6 x XOR rotr 11 x XOR rotr 25 x"

definition sigma0 :: "u32 \<Rightarrow> u32" where
  "sigma0 x = rotr 7 x XOR rotr 18 x XOR drop_bit 3 x"

definition sigma1 :: "u32 \<Rightarrow> u32" where
  "sigma1 x = rotr 17 x XOR rotr 19 x XOR drop_bit 10 x"

definition be64_bytes :: "64 word \<Rightarrow> byte list" where
  "be64_bytes w = map (\<lambda>i. ucast (drop_bit (8 * (7 - i)) w)) [0..<8]"

text \<open>Padding: the bit 1, zeros up to 56 modulo 64, and the bit length on 64 bits.\<close>

definition sha256_pad :: "byte list \<Rightarrow> byte list" where
  "sha256_pad m =
     m @ [0x80] @ replicate ((119 - length m mod 64) mod 64) 0
       @ be64_bytes (8 * of_nat (length m))"

fun be32_words :: "byte list \<Rightarrow> u32 list" where
  "be32_words (a # b # c # d # rest) =
     (push_bit 24 (ucast a) OR push_bit 16 (ucast b) OR push_bit 8 (ucast c) OR ucast d)
       # be32_words rest"
| "be32_words _ = []"

definition schedule :: "u32 list \<Rightarrow> u32 list" where
  "schedule block =
     fold (\<lambda>t w. w @ [sigma1 (w ! (t - 2)) + w ! (t - 7) + sigma0 (w ! (t - 15)) + w ! (t - 16)])
       [16..<64] block"

type_synonym sha_state = "u32 \<times> u32 \<times> u32 \<times> u32 \<times> u32 \<times> u32 \<times> u32 \<times> u32"

fun sha256_round :: "u32 list \<Rightarrow> nat \<Rightarrow> sha_state \<Rightarrow> sha_state" where
  "sha256_round w t (a, b, c, d, e, f, g, h) =
     (let T1 = h + Sigma1 e + Ch e f g + sha256_K ! t + w ! t;
          T2 = Sigma0 a + Maj a b c
      in (T1 + T2, a, b, c, d + T1, e, f, g))"

fun sha256_compress :: "sha_state \<Rightarrow> byte list \<Rightarrow> sha_state" where
  "sha256_compress (h0, h1, h2, h3, h4, h5, h6, h7) block =
     (case fold (sha256_round (schedule (be32_words block))) [0..<64]
             (h0, h1, h2, h3, h4, h5, h6, h7) of
        (a, b, c, d, e, f, g, h) \<Rightarrow>
          (h0 + a, h1 + b, h2 + c, h3 + d, h4 + e, h5 + f, h6 + g, h7 + h))"

function sha256_blocks :: "sha_state \<Rightarrow> byte list \<Rightarrow> sha_state" where
  "sha256_blocks st m =
     (if length m < 64 then st else sha256_blocks (sha256_compress st (take 64 m)) (drop 64 m))"
  by pat_completeness auto
termination
  by (relation "measure (\<lambda>(st, m). length m)") auto

declare sha256_blocks.simps [simp del]

definition be32_bytes :: "u32 \<Rightarrow> byte list" where
  "be32_bytes w = [ucast (drop_bit 24 w), ucast (drop_bit 16 w), ucast (drop_bit 8 w), ucast w]"

text \<open>
  The initial state: the first 32 bits of the fractional parts of the square roots of
  the first 8 primes.
\<close>

definition sha256_init :: sha_state where
  "sha256_init = (1779033703, 3144134277, 1013904242, 2773480762,
                  1359893119, 2600822924, 528734635, 1541459225)"

text \<open>\<^verbatim>\<open>hashlib.sha256(m).digest()\<close>\<close>

definition sha256 :: "byte list \<Rightarrow> byte list" where
  "sha256 m =
     (case sha256_blocks sha256_init (sha256_pad m) of
        (h0, h1, h2, h3, h4, h5, h6, h7) \<Rightarrow>
          concat (map be32_bytes [h0, h1, h2, h3, h4, h5, h6, h7]))"

definition hex_digit :: "nat \<Rightarrow> char" where
  "hex_digit n = ''0123456789abcdef'' ! n"

text \<open>\<^verbatim>\<open>bytes.hex()\<close>: two lowercase hexadecimal digits for each byte.\<close>

definition bytes_hex :: "byte list \<Rightarrow> string" where
  "bytes_hex bs = concat (map (\<lambda>b. [hex_digit (unat b div 16), hex_digit (unat b mod 16)]) bs)"

text \<open>\<^verbatim>\<open>hashlib.sha256(m).hexdigest()\<close>\<close>

definition sha256_hexdigest :: "byte list \<Rightarrow> string" where
  "sha256_hexdigest m = bytes_hex (sha256 m)"

subsection \<open>\<^verbatim>\<open>json\<close>: values and \<^verbatim>\<open>json.dumps\<close>\<close>

text \<open>
  A Python \<^verbatim>\<open>float\<close> is NaN, an infinity, or a finite double. A finite double is
  represented by its \<^verbatim>\<open>repr\<close>, the shortest decimal literal that reads back as the same
  double (\<^verbatim>\<open>0.87\<close>, \<^verbatim>\<open>1e+16\<close>, \<^verbatim>\<open>-0.0\<close>): \<^verbatim>\<open>float.__repr__\<close> is one-to-one on
  finite doubles, so two finite doubles are the same exactly when their literals are.
\<close>

datatype pyfloat = Finite string | NaN | PosInf | NegInf

text \<open>
  The values \<^verbatim>\<open>json.load\<close> produces and \<^verbatim>\<open>json.dumps\<close> accepts: \<^verbatim>\<open>None\<close>, \<^verbatim>\<open>bool\<close>,
  \<^verbatim>\<open>int\<close>, \<^verbatim>\<open>float\<close>, \<^verbatim>\<open>str\<close>, \<^verbatim>\<open>list\<close>, and \<^verbatim>\<open>dict\<close> with \<^verbatim>\<open>str\<close> keys.
\<close>

datatype json =
    JNull
  | JBool bool
  | JInt int
  | JFloat pyfloat
  | JStr pystr
  | JArr "json list"
  | JObj "(pystr \<times> json) list"

text \<open>
  \<^verbatim>\<open>py_encode_basestring_ascii\<close> (\<^verbatim>\<open>ensure_ascii=True\<close>, the default): backslash and
  the double quote are escaped, the five control characters with a short form use it,
  every other code point outside \<^verbatim>\<open>' '..'~'\<close> and below \<^verbatim>\<open>0x10000\<close> becomes \<^verbatim>\<open>\uxxxx\<close>,
  and a code point from \<^verbatim>\<open>0x10000\<close> on becomes the two escapes of its surrogate pair.
\<close>

definition hex4 :: "nat \<Rightarrow> string" where
  "hex4 n = [hex_digit (n div 4096 mod 16), hex_digit (n div 256 mod 16),
             hex_digit (n div 16 mod 16), hex_digit (n mod 16)]"

definition escape_char :: "nat \<Rightarrow> string" where
  "escape_char n =
     (if n = 0x5C then [CHR 0x5C, CHR 0x5C]
      else if n = 0x22 then [CHR 0x5C, CHR 0x22]
      else if n = 0x08 then [CHR 0x5C, CHR ''b'']
      else if n = 0x0C then [CHR 0x5C, CHR ''f'']
      else if n = 0x0A then [CHR 0x5C, CHR ''n'']
      else if n = 0x0D then [CHR 0x5C, CHR ''r'']
      else if n = 0x09 then [CHR 0x5C, CHR ''t'']
      else if 0x20 \<le> n \<and> n \<le> 0x7E then [char_of n]
      else if n < 0x10000 then [CHR 0x5C, CHR ''u''] @ hex4 n
      else
        (let v = n - 0x10000;
             s1 = 0xD800 + v div 1024 mod 1024;
             s2 = 0xDC00 + v mod 1024
         in [CHR 0x5C, CHR ''u''] @ hex4 s1 @ [CHR 0x5C, CHR ''u''] @ hex4 s2))"

definition py_encode_basestring_ascii :: "pystr \<Rightarrow> string" where
  "py_encode_basestring_ascii s = [CHR 0x22] @ concat (map escape_char s) @ [CHR 0x22]"

text \<open>\<^verbatim>\<open>int.__repr__\<close>: decimal digits, with a minus sign for a negative number.\<close>

function nat_repr :: "nat \<Rightarrow> string" where
  "nat_repr n = (if n < 10 then [hex_digit n] else nat_repr (n div 10) @ [hex_digit (n mod 10)])"
  by pat_completeness auto
termination
  by (relation "measure id") auto

declare nat_repr.simps [simp del]

definition int_repr :: "int \<Rightarrow> string" where
  "int_repr i = (if i < 0 then CHR ''-'' # nat_repr (nat (- i)) else nat_repr (nat i))"

text \<open>
  \<^verbatim>\<open>floatstr\<close> of \<^verbatim>\<open>json.encoder\<close>: NaN and the infinities are written as
  \<^verbatim>\<open>NaN\<close>, \<^verbatim>\<open>Infinity\<close> and \<^verbatim>\<open>-Infinity\<close> when \<^verbatim>\<open>allow_nan\<close> holds, and raise
  \<^verbatim>\<open>ValueError\<close> otherwise; a finite double is written by \<^verbatim>\<open>float.__repr__\<close>.
\<close>

fun floatstr :: "bool \<Rightarrow> pyfloat \<Rightarrow> py_error + string" where
  "floatstr allow_nan (Finite r) = Inr r"
| "floatstr allow_nan NaN = (if allow_nan then Inr ''NaN'' else Inl ValueError)"
| "floatstr allow_nan PosInf = (if allow_nan then Inr ''Infinity'' else Inl ValueError)"
| "floatstr allow_nan NegInf = (if allow_nan then Inr ''-Infinity'' else Inl ValueError)"

fun join :: "string \<Rightarrow> string list \<Rightarrow> string" where
  "join sep [] = []"
| "join sep [x] = x"
| "join sep (x # y # ys) = x @ sep @ join sep (y # ys)"

fun sequence_err :: "('e + 'a) list \<Rightarrow> 'e + 'a list" where
  "sequence_err [] = Inr []"
| "sequence_err (Inl e # rs) = Inl e"
| "sequence_err (Inr x # rs) = and_then (sequence_err rs) (\<lambda>xs. Inr (x # xs))"

text \<open>
  \<^verbatim>\<open>json.dumps(obj, sort_keys=..., allow_nan=...)\<close> with the other options at their
  defaults: \<^verbatim>\<open>ensure_ascii=True\<close>, \<^verbatim>\<open>indent=None\<close>, hence the separators
  \<^verbatim>\<open>', '\<close> and \<^verbatim>\<open>': '\<close>. With \<^verbatim>\<open>sort_keys\<close> the items of every dict are written in
  the order of their keys (Python compares \<^verbatim>\<open>str\<close> by code point).
\<close>

function (sequential) json_dumps :: "bool \<Rightarrow> bool \<Rightarrow> json \<Rightarrow> py_error + string" where
  "json_dumps sort_keys allow_nan JNull = Inr ''null''"
| "json_dumps sort_keys allow_nan (JBool b) = Inr (if b then ''true'' else ''false'')"
| "json_dumps sort_keys allow_nan (JInt i) = Inr (int_repr i)"
| "json_dumps sort_keys allow_nan (JFloat f) = floatstr allow_nan f"
| "json_dumps sort_keys allow_nan (JStr s) = Inr (py_encode_basestring_ascii s)"
| "json_dumps sort_keys allow_nan (JArr xs) =
     (if xs = [] then Inr ''[]''
      else and_then (sequence_err (map (json_dumps sort_keys allow_nan) xs))
             (\<lambda>chunks. Inr (''['' @ join '', '' chunks @ '']'')))"
| "json_dumps sort_keys allow_nan (JObj d) =
     (if d = [] then Inr ''{}''
      else and_then
             (sequence_err
                (map (\<lambda>(k, v). and_then (json_dumps sort_keys allow_nan v)
                                 (\<lambda>chunk. Inr (py_encode_basestring_ascii k @ '': '' @ chunk)))
                     (if sort_keys then sort_key fst d else d)))
             (\<lambda>items. Inr (''{'' @ join '', '' items @ ''}'')))"
  by pat_completeness auto
termination
proof (relation "measure (\<lambda>(sort_keys, allow_nan, v). size v)", goal_cases)
  case 1
  show ?case by simp
next
  case (2 sort_keys allow_nan xs x)
  then show ?case by (simp add: less_Suc_eq_le size_list_estimation')
next
  case (3 sort_keys allow_nan d kv k v)
  then have "kv \<in> set d" by (simp split: if_splits)
  then have "size_prod (\<lambda>x. 0) size kv \<le> size_list (size_prod (\<lambda>x. 0) size) d"
    by (rule size_list_estimation') simp
  with 3(3) show ?case by auto
qed

text \<open>
  Subscription \<^verbatim>\<open>obj[key]\<close> with a \<^verbatim>\<open>str\<close> key on a loaded value: a dict without the
  key raises \<^verbatim>\<open>KeyError\<close>, and a value that is not a dict raises \<^verbatim>\<open>TypeError\<close>.
\<close>

fun getitem :: "json \<Rightarrow> pystr \<Rightarrow> py_error + json" where
  "getitem (JObj d) key = (case map_of d key of None \<Rightarrow> Inl (KeyError key) | Some v \<Rightarrow> Inr v)"
| "getitem _ key = Inl TypeError"

subsection \<open>Equality of loaded values\<close>

text \<open>The number a decimal text stands for.\<close>

definition decimal_value :: "string \<Rightarrow> nat" where
  "decimal_value s = foldl (\<lambda>a c. 10 * a + (of_char c - 48)) 0 s"

text \<open>
  The parts of the literal of a finite double (\<^verbatim>\<open>-1.25\<close>, \<^verbatim>\<open>1e+16\<close>, \<^verbatim>\<open>2.5e-07\<close>): its
  sign, and the integers \<open>m\<close> and \<open>e\<close> such that the literal reads \<open>m\<close> times ten to the
  power \<open>e\<close>.
\<close>

definition literal_negative :: "string \<Rightarrow> bool" where
  "literal_negative r \<longleftrightarrow> r \<noteq> [] \<and> hd r = CHR ''-''"

definition literal_exponent :: "string \<Rightarrow> int" where
  "literal_exponent x =
     (if x \<noteq> [] \<and> hd x = CHR ''-'' then - int (decimal_value (tl x))
      else if x \<noteq> [] \<and> hd x = CHR ''+'' then int (decimal_value (tl x))
      else int (decimal_value x))"

definition literal_parts :: "string \<Rightarrow> int \<times> int" where
  "literal_parts r =
     (let body = (if literal_negative r then tl r else r);
          mantissa = takeWhile (\<lambda>c. c \<noteq> CHR ''e'') body;
          exponent = drop 1 (dropWhile (\<lambda>c. c \<noteq> CHR ''e'') body);
          whole = takeWhile (\<lambda>c. c \<noteq> CHR ''.'') mantissa;
          fraction = drop 1 (dropWhile (\<lambda>c. c \<noteq> CHR ''.'') mantissa)
      in (int (decimal_value (whole @ fraction)),
          literal_exponent exponent - int (length fraction)))"

function bit_length :: "int \<Rightarrow> nat" where
  "bit_length n = (if n \<le> 0 then 0 else Suc (bit_length (n div 2)))"
  by pat_completeness auto
termination
  by (relation "measure nat") auto

declare bit_length.simps [simp del]

text \<open>
  The double nearest to a natural number, as \<^verbatim>\<open>float\<close> reads a literal: 53 significant
  bits are kept, and a number half way between two doubles goes to the one whose last
  bit is zero. (The literal of a finite double is below the overflow threshold.)
\<close>

definition nearest_double :: "int \<Rightarrow> int" where
  "nearest_double n =
     (if bit_length n \<le> 53 then n
      else
        (let unit = 2 ^ (bit_length n - 53);
             q = n div unit;
             r = n mod unit
         in (if unit < 2 * r \<or> (unit = 2 * r \<and> odd q) then q + 1 else q) * unit))"

text \<open>
  The value of a finite double when it is an integer. The double is given by its
  \<^verbatim>\<open>repr\<close>, the shortest literal that reads back as the same double: when the literal
  has a fractional part, so has the double.
\<close>

definition float_int_value :: "string \<Rightarrow> int option" where
  "float_int_value r =
     (let (m, e) = literal_parts r;
          sign = (if literal_negative r then - 1 else 1)
      in if 0 \<le> e then Some (sign * nearest_double (m * 10 ^ nat e))
         else if m mod 10 ^ nat (- e) = 0 then Some (sign * nearest_double (m div 10 ^ nat (- e)))
         else None)"

text \<open>
  \<^verbatim>\<open>==\<close> on numbers compares values: a \<^verbatim>\<open>bool\<close> is the \<^verbatim>\<open>int\<close> 0 or 1, an
  \<^verbatim>\<open>int\<close> equals a \<^verbatim>\<open>float\<close> of the same value, \<^verbatim>\<open>0.0\<close> equals \<^verbatim>\<open>-0.0\<close>, and NaN
  equals nothing.
\<close>

fun float_eq :: "pyfloat \<Rightarrow> pyfloat \<Rightarrow> bool" where
  "float_eq (Finite r) (Finite r') =
     (r = r' \<or> (float_int_value r = Some 0 \<and> float_int_value r' = Some 0))"
| "float_eq PosInf PosInf = True"
| "float_eq NegInf NegInf = True"
| "float_eq f g = False"

fun int_eq_float :: "int \<Rightarrow> pyfloat \<Rightarrow> bool" where
  "int_eq_float i (Finite r) = (float_int_value r = Some i)"
| "int_eq_float i f = False"

fun number :: "json \<Rightarrow> (int + pyfloat) option" where
  "number (JBool b) = Some (Inl (if b then 1 else 0))"
| "number (JInt i) = Some (Inl i)"
| "number (JFloat f) = Some (Inr f)"
| "number v = None"

fun number_eq :: "int + pyfloat \<Rightarrow> int + pyfloat \<Rightarrow> bool" where
  "number_eq (Inl i) (Inl j) = (i = j)"
| "number_eq (Inl i) (Inr f) = int_eq_float i f"
| "number_eq (Inr f) (Inl i) = int_eq_float i f"
| "number_eq (Inr f) (Inr g) = float_eq f g"

text \<open>
  \<^verbatim>\<open>a == b\<close> on two values loaded by \<^verbatim>\<open>json.load\<close>. Values of different kinds are
  unequal, numbers apart. Two lists are equal when they have equal elements in the same
  order, two dicts when they have the same keys with equal values, whatever the order
  of the keys. The elements of lists and the values of dicts are first compared by
  identity, and \<^verbatim>\<open>json.load\<close> returns one and the same object for every \<^verbatim>\<open>NaN\<close> it
  reads: inside a list or a dict NaN equals NaN, which is the flag \<open>shared\<close>.
\<close>

fun py_eq :: "bool \<Rightarrow> json \<Rightarrow> json \<Rightarrow> bool" where
  "py_eq shared (JArr xs) (JArr ys) = list_all2 (py_eq True) xs ys"
| "py_eq shared (JObj d) (JObj d') =
     (length d = length d' \<and>
      (\<forall>(k, v) \<in> set d. case map_of d' k of None \<Rightarrow> False | Some v' \<Rightarrow> py_eq True v v'))"
| "py_eq shared a b =
     (case (number a, number b) of
        (Some x, Some y) \<Rightarrow> number_eq x y \<or> (shared \<and> a = JFloat NaN \<and> b = JFloat NaN)
      | _ \<Rightarrow> a = b)"

text \<open>\<^verbatim>\<open>a != b\<close> between two field values.\<close>

definition py_ne :: "json \<Rightarrow> json \<Rightarrow> bool" where
  "py_ne a b \<longleftrightarrow> \<not> py_eq False a b"

text \<open>
  \<^verbatim>\<open>base64.b64decode(s)\<close> (\<^verbatim>\<open>validate=False\<close>) on a loaded value: a \<^verbatim>\<open>str\<close> is
  encoded as ASCII, which raises \<^verbatim>\<open>ValueError\<close> on any other character; a value that is
  neither \<^verbatim>\<open>str\<close> nor bytes-like raises \<^verbatim>\<open>TypeError\<close>.
\<close>

fun b64decode :: "json \<Rightarrow> py_error + byte list" where
  "b64decode (JStr s) =
     (if \<forall>c \<in> set s. c < 128 then a2b_base64 (map of_nat s) else Inl ValueError)"
| "b64decode _ = Inl TypeError"

subsection \<open>\<^verbatim>\<open>cryptography\<close>: Ed25519 keys\<close>

text \<open>
  The curve arithmetic of Ed25519 is a parameter: \<open>derive_public\<close> maps the 32 bytes of a
  private key to the 32 bytes of its public key, \<open>sign_raw\<close> signs a message and
  \<open>verify_raw\<close> decides whether a 64-byte signature is valid for a public key and a
  message. What the key classes add is modelled: the length checks of the constructors
  and the \<^verbatim>\<open>InvalidSignature\<close> exception of \<^verbatim>\<open>verify\<close>.
\<close>

record ed25519 =
  derive_public :: "byte list \<Rightarrow> byte list"
  sign_raw :: "byte list \<Rightarrow> byte list \<Rightarrow> byte list"
  verify_raw :: "byte list \<Rightarrow> byte list \<Rightarrow> byte list \<Rightarrow> bool"

datatype Ed25519PrivateKey = Ed25519PrivateKey "byte list"

datatype Ed25519PublicKey = Ed25519PublicKey "byte list"

text \<open>
  \<^verbatim>\<open>Ed25519PrivateKey.generate()\<close> draws 32 bytes from the operating system's random
  generator; the bytes drawn are the argument \<open>entropy\<close>.
\<close>

definition Ed25519PrivateKey_generate :: "byte list \<Rightarrow> Ed25519PrivateKey" where
  "Ed25519PrivateKey_generate entropy = Ed25519PrivateKey entropy"

fun private_key_public_key :: "ed25519 \<Rightarrow> Ed25519PrivateKey \<Rightarrow> Ed25519PublicKey" where
  "private_key_public_key E (Ed25519PrivateKey seed) = Ed25519PublicKey (derive_public E seed)"

fun private_bytes_raw :: "Ed25519PrivateKey \<Rightarrow> byte list" where
  "private_bytes_raw (Ed25519PrivateKey seed) = seed"

fun public_bytes_raw :: "Ed25519PublicKey \<Rightarrow> byte list" where
  "public_bytes_raw (Ed25519PublicKey data) = data"

text \<open>Both constructors raise \<^verbatim>\<open>ValueError\<close> unless they are given exactly 32 bytes.\<close>

definition from_private_bytes :: "byte list \<Rightarrow> py_error + Ed25519PrivateKey" where
  "from_private_bytes data =
     (if length data \<noteq> 32 then Inl ValueError else Inr (Ed25519PrivateKey data))"

definition from_public_bytes :: "byte list \<Rightarrow> py_error + Ed25519PublicKey" where
  "from_public_bytes data =
     (if length data \<noteq> 32 then Inl ValueError else Inr (Ed25519PublicKey data))"

fun private_key_sign :: "ed25519 \<Rightarrow> Ed25519PrivateKey \<Rightarrow> byte list \<Rightarrow> byte list" where
  "private_key_sign E (Ed25519PrivateKey seed) data = sign_raw E seed data"

text \<open>
  \<^verbatim>\<open>public_key.verify(signature, data)\<close> returns \<^verbatim>\<open>None\<close> on success and raises
  \<^verbatim>\<open>InvalidSignature\<close> otherwise; a signature that is not 64 bytes long is invalid.
\<close>

fun public_key_verify ::
  "ed25519 \<Rightarrow> Ed25519PublicKey \<Rightarrow> byte list \<Rightarrow> byte list \<Rightarrow> py_error + unit" where
  "public_key_verify E (Ed25519PublicKey pk) signature data =
     (if length signature = 64 \<and> verify_raw E pk signature data then Inr ()
      else Inl InvalidSignature)"

subsection \<open>Files\<close>

text \<open>
  The scripts read and write whole files through \<^verbatim>\<open>json.load\<close> and \<^verbatim>\<open>json.dump\<close>
  only. A file is therefore described by what \<^verbatim>\<open>json.load\<close> makes of it: the value of
  the JSON document it holds, or the exception that \<^verbatim>\<open>json.load\<close> raises on it
  (\<^verbatim>\<open>JSONDecodeError\<close> on text that is not JSON, \<^verbatim>\<open>UnicodeDecodeError\<close> on bytes that
  are not text, \<^verbatim>\<open>ValueError\<close> on a number with too many digits). Opening a file that
  does not exist raises \<^verbatim>\<open>FileNotFoundError\<close>. \<^verbatim>\<open>json.dump\<close> leaves a file that loads as
  the value written; the text in between (\<^verbatim>\<open>indent=2\<close>) is not modelled.
\<close>

datatype file_content = JSON_document json | Unloadable py_error

type_synonym filesystem = "string \<Rightarrow> file_content option"

definition json_load :: "filesystem \<Rightarrow> string \<Rightarrow> py_error + json" where
  "json_load fs filename =
     (case fs filename of
        None \<Rightarrow> Inl FileNotFoundError
      | Some (Unloadable e) \<Rightarrow> Inl e
      | Some (JSON_document v) \<Rightarrow> Inr v)"

definition json_dump :: "json \<Rightarrow> string \<Rightarrow> filesystem \<Rightarrow> filesystem" where
  "json_dump v filename fs = fs(filename \<mapsto> JSON_document v)"
subsection \<open>\<^verbatim>\<open>demo.py\<close>\<close>

text \<open>
  The dict \<^verbatim>\<open>{"private_key": ..., "public_key": ...}\<close> of raw key bytes; the two
  entries are the fields \<open>kp_private_key\<close> and \<open>kp_public_key\<close>.
\<close>

record keypair =
  kp_private_key :: "byte list"
  kp_public_key :: "byte list"

definition generate_keypair :: "ed25519 \<Rightarrow> byte list \<Rightarrow> keypair" where
  "generate_keypair E entropy =
     (let private_key = Ed25519PrivateKey_generate entropy;
          public_key = private_key_public_key E private_key;
          private_bytes = private_bytes_raw private_key;
          public_bytes = public_bytes_raw public_key
      in \<lparr>kp_private_key = private_bytes, kp_public_key = public_bytes\<rparr>)"

definition save_keypair :: "keypair \<Rightarrow> string \<Rightarrow> filesystem \<Rightarrow> py_error + filesystem" where
  "save_keypair keypair filename fs =
     and_then (decode_utf8 (b64encode (kp_private_key keypair))) (\<lambda>private_text.
     and_then (decode_utf8 (b64encode (kp_public_key keypair))) (\<lambda>public_text.
       Inr (json_dump (JObj [(str ''private_key'', JStr (str private_text)),
                             (str ''public_key'', JStr (str public_text))]) filename fs)))"

definition load_keypair :: "filesystem \<Rightarrow> string \<Rightarrow> py_error + keypair" where
  "load_keypair fs filename =
     and_then (json_load fs filename) (\<lambda>encoded_keypair.
     and_then (getitem encoded_keypair (str ''private_key'')) (\<lambda>private_text.
     and_then (b64decode private_text) (\<lambda>private_bytes.
     and_then (getitem encoded_keypair (str ''public_key'')) (\<lambda>public_text.
     and_then (b64decode public_text) (\<lambda>public_bytes.
       Inr \<lparr>kp_private_key = private_bytes, kp_public_key = public_bytes\<rparr>)))))"

definition hash_sentiment_data :: "json \<Rightarrow> py_error + byte list" where
  "hash_sentiment_data sentiment_data =
     and_then (json_dumps True True sentiment_data) (\<lambda>canonical_json.
       Inr (sha256 (encode_utf8 canonical_json)))"

definition sign_data :: "ed25519 \<Rightarrow> byte list \<Rightarrow> byte list \<Rightarrow> py_error + byte list" where
  "sign_data E data_hash private_key_bytes =
     and_then (from_private_bytes private_key_bytes) (\<lambda>private_key.
       Inr (private_key_sign E private_key data_hash))"

text \<open>
  The public key is built before the \<^verbatim>\<open>try\<close>; inside it, \<^verbatim>\<open>except Exception\<close> turns
  every exception of \<^verbatim>\<open>verify\<close> into \<^verbatim>\<open>False\<close>.
\<close>

definition verify_signature ::
  "ed25519 \<Rightarrow> byte list \<Rightarrow> byte list \<Rightarrow> byte list \<Rightarrow> py_error + bool" where
  "verify_signature E data_hash signature public_key_bytes =
     and_then (from_public_bytes public_key_bytes) (\<lambda>public_key.
       case public_key_verify E public_key signature data_hash of
         Inr _ \<Rightarrow> Inr True
       | Inl _ \<Rightarrow> Inr False)"

definition load_sentiment_data :: "filesystem \<Rightarrow> string \<Rightarrow> py_error + json" where
  "load_sentiment_data fs filename = json_load fs filename"


text \<open>
  The first half of \<^verbatim>\<open>verify_signed_data\<close> (lines 122 to 128): the file is loaded and
  its three components are extracted, the signature and the public key decoded.
\<close>

definition extract_components :: "filesystem \<Rightarrow> string \<Rightarrow> py_error + json \<times> byte list \<times> byte list" where
  "extract_components fs filename =
     and_then (json_load fs filename) (\<lambda>signed_data.
     and_then (getitem signed_data (str ''data'')) (\<lambda>sentiment_data.
     and_then (getitem signed_data (str ''signature'')) (\<lambda>signature_text.
     and_then (b64decode signature_text) (\<lambda>signature.
     and_then (getitem signed_data (str ''public_key'')) (\<lambda>public_key_text.
     and_then (b64decode public_key_text) (\<lambda>public_key.
       Inr (sentiment_data, signature, public_key)))))))"

definition verify_signed_data :: "ed25519 \<Rightarrow> filesystem \<Rightarrow> string \<Rightarrow> py_error + bool" where
  "verify_signed_data E fs filename =
     and_then (extract_components fs filename) (\<lambda>(sentiment_data, signature, public_key).
     and_then (hash_sentiment_data sentiment_data) (\<lambda>data_hash.
       verify_signature E data_hash signature public_key))"

subsection \<open>\<^verbatim>\<open>verify_tampering.py\<close>\<close>

definition vt_hash_sentiment_data :: "json \<Rightarrow> py_error + byte list" where
  "vt_hash_sentiment_data sentiment_data =
     and_then (json_dumps True True sentiment_data) (\<lambda>canonical_json.
       Inr (sha256 (encode_utf8 canonical_json)))"

definition vt_verify_signed_data :: "ed25519 \<Rightarrow> filesystem \<Rightarrow> string \<Rightarrow> py_error + bool" where
  "vt_verify_signed_data E fs filename =
     and_then (json_load fs filename) (\<lambda>signed_data.
     and_then (getitem signed_data (str ''data'')) (\<lambda>sentiment_data.
     and_then (getitem signed_data (str ''signature'')) (\<lambda>signature_text.
     and_then (b64decode signature_text) (\<lambda>signature.
     and_then (getitem signed_data (str ''public_key'')) (\<lambda>public_key_text.
     and_then (b64decode public_key_text) (\<lambda>public_key.
     and_then (vt_hash_sentiment_data sentiment_data) (\<lambda>data_hash.
     and_then (from_public_bytes public_key) (\<lambda>public_key_obj.
       case public_key_verify E public_key_obj signature data_hash of
         Inr _ \<Rightarrow> Inr True
       | Inl _ \<Rightarrow> Inr False))))))))"

subsection \<open>\<^verbatim>\<open>compare_hashes.py\<close>\<close>

definition hash_data :: "json \<Rightarrow> py_error + string" where
  "hash_data data =
     and_then (json_dumps True True data) (\<lambda>canonical_json.
       Inr (sha256_hexdigest (encode_utf8 canonical_json)))"

text \<open>
  The loop of \<^verbatim>\<open>main\<close> that shows what changed (lines 55 to 58). It runs over the keys
  of the original record in their insertion order and looks each key up in both records;
  \<^verbatim>\<open>tampered[key]\<close> raises \<^verbatim>\<open>KeyError\<close> for a key the tampered record lacks. The result
  is the list of lines printed, each with the field and its two values, and the
  exception that ended the loop, if any. Python's \<^verbatim>\<open>!=\<close> on two field values is the
  parameter \<open>ne\<close>.
\<close>

definition dict_keys :: "(pystr \<times> 'v) list \<Rightarrow> pystr list" where
  "dict_keys d = map fst d"

definition dict_getitem :: "(pystr \<times> 'v) list \<Rightarrow> pystr \<Rightarrow> py_error + 'v" where
  "dict_getitem d key = (case map_of d key of None \<Rightarrow> Inl (KeyError key) | Some v \<Rightarrow> Inr v)"

fun changes_loop ::
  "('v \<Rightarrow> 'v \<Rightarrow> bool) \<Rightarrow> (pystr \<times> 'v) list \<Rightarrow> (pystr \<times> 'v) list \<Rightarrow> pystr list
     \<Rightarrow> (pystr \<times> 'v \<times> 'v) list \<times> py_error option" where
  "changes_loop ne original tampered [] = ([], None)"
| "changes_loop ne original tampered (key # keys) =
     (case dict_getitem original key of
        Inl e \<Rightarrow> ([], Some e)
      | Inr a \<Rightarrow>
          (case dict_getitem tampered key of
             Inl e \<Rightarrow> ([], Some e)
           | Inr b \<Rightarrow>
               (let (printed, raised) = changes_loop ne original tampered keys
                in (if ne a b then (key, a, b) # printed else printed, raised))))"

definition changes_detected ::
  "('v \<Rightarrow> 'v \<Rightarrow> bool) \<Rightarrow> (pystr \<times> 'v) list \<Rightarrow> (pystr \<times> 'v) list
     \<Rightarrow> (pystr \<times> 'v \<times> 'v) list \<times> py_error option" where
  "changes_detected ne original tampered =
     changes_loop ne original tampered (dict_keys original)"

text \<open>
  Each of the two \<^verbatim>\<open>try\<close> blocks of \<^verbatim>\<open>main\<close> (lines 24 to 29 and 35 to 40) loads a
  file, hashes its \<^verbatim>\<open>data\<close> entry and prints the hash and the \<^verbatim>\<open>label\<close> of the entry.
  The result is the entry, which later lines read again, with its hash; an exception
  raised on the way is the one the \<^verbatim>\<open>except\<close> clause catches.
\<close>

definition load_json :: "filesystem \<Rightarrow> string \<Rightarrow> py_error + json" where
  "load_json fs filename = json_load fs filename"

definition load_and_show :: "filesystem \<Rightarrow> string \<Rightarrow> py_error + (pystr \<times> json) list \<times> string" where
  "load_and_show fs filename =
     and_then (load_json fs filename) (\<lambda>loaded.
     and_then (getitem loaded (str ''data'')) (\<lambda>data.
     and_then (hash_data data) (\<lambda>data_hash.
     and_then (getitem data (str ''label'')) (\<lambda>label.
       case data of JObj d \<Rightarrow> Inr (d, data_hash) | _ \<Rightarrow> Inl TypeError))))"

text \<open>
  What a run of \<^verbatim>\<open>main\<close> shows. When loading either file raises, \<^verbatim>\<open>main\<close> prints the
  error and returns before anything is compared. Otherwise it prints whether the two
  hashes match and then the changes it detects between the two records, the original
  one from \<^verbatim>\<open>signed_sentiment_original.json\<close> and the tampered one from
  \<^verbatim>\<open>signed_sentiment.json\<close>; the loop is outside the \<^verbatim>\<open>try\<close> blocks, so an exception it
  raises ends the run.
\<close>

datatype comparison =
    Loading_failed py_error
  | Compared bool "(pystr \<times> json \<times> json) list" "py_error option"

definition main :: "filesystem \<Rightarrow> comparison" where
  "main fs =
     (case load_and_show fs ''signed_sentiment_original.json'' of
        Inl e \<Rightarrow> Loading_failed e
      | Inr (original, original_hash) \<Rightarrow>
          (case load_and_show fs ''signed_sentiment.json'' of
             Inl e \<Rightarrow> Loading_failed e
           | Inr (tampered, tampered_hash) \<Rightarrow>
               (let (printed, raised) = changes_detected py_ne original tampered
                in Compared (original_hash = tampered_hash) printed raised)))"
subsection \<open>Records as the specification speaks of them\<close>

text \<open>
  A literal that \<^verbatim>\<open>float.__repr__\<close> can produce for a finite double is not empty, is
  made of digits, signs, the point and \<^verbatim>\<open>e\<close>, and contains a point or an exponent.
\<close>

definition float_literal :: "string \<Rightarrow> bool" where
  "float_literal r \<longleftrightarrow>
     r \<noteq> [] \<and> set r \<subseteq> set ''0123456789+-.e'' \<and> (CHR ''.'' \<in> set r \<or> CHR ''e'' \<in> set r)"

text \<open>
  Unicode text: every code point is a Unicode scalar value, that is, below
  \<^verbatim>\<open>0x110000\<close> and not a surrogate. (A Python \<^verbatim>\<open>str\<close> may also hold lone surrogates;
  \<^verbatim>\<open>json.load\<close> produces them from escapes that are not paired.)
\<close>

definition unicode_text :: "pystr \<Rightarrow> bool" where
  "unicode_text s \<longleftrightarrow> (\<forall>c \<in> set s. c < 0x110000 \<and> \<not> (0xD800 \<le> c \<and> c \<le> 0xDFFF))"

text \<open>
  A well-formed record: every dict has distinct keys, as Python's dicts do, every string
  and every key is Unicode text, and every finite float carries a float literal.
\<close>

fun wf_json :: "json \<Rightarrow> bool" where
  "wf_json (JFloat (Finite r)) = float_literal r"
| "wf_json (JStr s) = unicode_text s"
| "wf_json (JArr xs) = (\<forall>x \<in> set xs. wf_json x)"
| "wf_json (JObj d) =
     (distinct (map fst d) \<and> (\<forall>(k, v) \<in> set d. unicode_text k \<and> wf_json v))"
| "wf_json _ = True"


text \<open>\<^verbatim>\<open>canonicalize\<close>: the canonical text of a record as bytes, the input of the digest.\<close>

definition canonicalize :: "json \<Rightarrow> py_error + byte list" where
  "canonicalize r = and_then (json_dumps True True r) (\<lambda>canonical_json. Inr (encode_utf8 canonical_json))"

text \<open>The text \<^verbatim>\<open>json.dumps(r, sort_keys=True)\<close> returns, as a total function.\<close>

definition render :: "json \<Rightarrow> string" where
  "render v = (case json_dumps True True v of Inr s \<Rightarrow> s | Inl e \<Rightarrow> [])"

text \<open>
  What the comparison of two records is specified to report: the fields of the union of
  both key sets, in lexicographic order, whose values differ, where a field present in
  only one record differs.
\<close>

definition spec_differing_fields ::
  "('v \<Rightarrow> 'v \<Rightarrow> bool) \<Rightarrow> (pystr \<times> 'v) list \<Rightarrow> (pystr \<times> 'v) list \<Rightarrow> pystr list" where
  "spec_differing_fields ne a b =
     filter (\<lambda>k. case (map_of a k, map_of b k) of
                    (Some x, Some y) \<Rightarrow> ne x y
                  | (None, None) \<Rightarrow> False
                  | _ \<Rightarrow> True)
       (sort (remdups (map fst a @ map fst b)))"

text \<open>
  The correctness of the signature scheme, assumed of the Ed25519 primitive: a 32-byte
  private key has a 32-byte public key, its signatures have 64 bytes, and a signature
  verifies against the public key of the private key that made it.
\<close>

definition ed25519_sound :: "ed25519 \<Rightarrow> bool" where
  "ed25519_sound E \<longleftrightarrow>
     (\<forall>seed msg. length seed = 32 \<longrightarrow>
        length (derive_public E seed) = 32 \<and>
        length (sign_raw E seed msg) = 64 \<and>
        verify_raw E (derive_public E seed) (sign_raw E seed msg) msg)"

text \<open>
  A stand-in for the primitive, used to instantiate results at concrete inputs. It is
  not Ed25519: the public key is the private key and a signature is a keyed digest.
\<close>

definition keyed_digest_scheme :: ed25519 where
  "keyed_digest_scheme =
     \<lparr>derive_public = (\<lambda>seed. seed),
      sign_raw = (\<lambda>seed msg. sha256 (seed @ msg) @ sha256 (msg @ seed)),
      verify_raw = (\<lambda>pk signature msg. signature = sha256 (pk @ msg) @ sha256 (msg @ pk))\<rparr>"

text \<open>The record of the specification's scenario: \<^verbatim>\<open>{"id": "1", "label": "POSITIVE", "score": 0.87}\<close>.\<close>

definition sample_record :: json where
  "sample_record =
     JObj [(str ''id'', JStr (str ''1'')), (str ''label'', JStr (str ''POSITIVE'')),
           (str ''score'', JFloat (Finite ''0.87''))]"








section \<open>Properties of the library operations\<close>

subsection \<open>Sequencing\<close>

lemma and_then_Inr_iff:
  "and_then m f = Inr y \<longleftrightarrow> (\<exists>x. m = Inr x \<and> f x = Inr y)"
  by (cases m) auto

lemma and_then_Inl_iff:
  "and_then m f = Inl e \<longleftrightarrow> m = Inl e \<or> (\<exists>x. m = Inr x \<and> f x = Inl e)"
  by (cases m) auto

subsection \<open>Base64 decodes what it encoded\<close>







































lemma str_eq_iff [simp]: "str s = str t \<longleftrightarrow> s = t"
proof -
  have "inj (of_char :: char \<Rightarrow> nat)"
    by (rule injI) simp
  then show ?thesis
    unfolding str_def by (simp add: inj_map_eq_map)
qed

lemma str_empty [simp]: "str [] = []"
  by (simp add: str_def)

declare b64decode.simps [simp del]

lemma b64decode_empty: "b64decode (JStr []) = Inr []"
  by (simp add: b64decode.simps a2b_base64_def)

subsection \<open>The digest has 32 bytes\<close>

lemma length_be32_bytes: "length (be32_bytes w) = 4"
  by (simp add: be32_bytes_def)

lemma length_sha256: "length (sha256 m) = 32"
proof -
  obtain h0 h1 h2 h3 h4 h5 h6 h7 where
    e: "sha256_blocks sha256_init (sha256_pad m) = (h0, h1, h2, h3, h4, h5, h6, h7)"
    by (metis surj_pair)
  show ?thesis
    unfolding sha256_def e by (simp add: length_be32_bytes)
qed

text \<open>
  The model of SHA-256 against two digests of the standard: the empty message and
  \<^verbatim>\<open>abc\<close>.
\<close>

lemma sha256_empty:
  "bytes_hex (sha256 []) = ''e3b0c44298fc1c149afbf4c8996fb92427ae41e4649b934ca495991b7852b855''"
  by code_simp

lemma sha256_abc:
  "bytes_hex (sha256 [0x61, 0x62, 0x63]) =
     ''ba7816bf8f01cfea414140de5dae2223b00361a396177a9cb410ff61f20015ad''"
  by code_simp

subsection \<open>\<^verbatim>\<open>json.dumps\<close> with \<^verbatim>\<open>allow_nan\<close> never raises\<close>

lemma sequence_err_map:
  "(\<And>x. x \<in> set xs \<Longrightarrow> f x = Inr (g x)) \<Longrightarrow> sequence_err (map f xs) = Inr (map g xs)"
  by (induction xs) simp_all

lemma render_eqI: "json_dumps True True v = Inr t \<Longrightarrow> json_dumps True True v = Inr (render v)"
  by (simp add: render_def)

lemma json_dumps_render: "json_dumps True True v = Inr (render v)"
proof (induction v)
  case JNull
  show ?case by (rule render_eqI) simp
next
  case (JBool b)
  show ?case by (rule render_eqI) simp
next
  case (JInt i)
  show ?case by (rule render_eqI) simp
next
  case (JFloat f)
  show ?case by (cases f) (simp_all add: render_def)
next
  case (JStr s)
  show ?case by (rule render_eqI) simp
next
  case (JArr xs)
  then have "sequence_err (map (json_dumps True True) xs) = Inr (map render xs)"
    by (intro sequence_err_map) simp
  then show ?case
    by (intro render_eqI [where t = "if xs = [] then ''[]'' else ''['' @ join '', '' (map render xs) @ '']''"])
       simp
next
  case (JObj d)
  let ?item = "\<lambda>(k, v). and_then (json_dumps True True v)
                 (\<lambda>chunk. Inr (py_encode_basestring_ascii k @ '': '' @ chunk))"
  let ?text = "\<lambda>(k, v). py_encode_basestring_ascii k @ '': '' @ render v"
  have "?item kv = Inr (?text kv)" if "kv \<in> set (sort_key fst d)" for kv
  proof -
    obtain k v where kv: "kv = (k, v)"
      by (cases kv)
    with that have "(k, v) \<in> set d"
      by simp
    then have "json_dumps True True v = Inr (render v)"
      using JObj.IH [of "(k, v)" v] by simp
    then show ?thesis
      by (simp add: kv)
  qed
  then have "sequence_err (map ?item (sort_key fst d)) = Inr (map ?text (sort_key fst d))"
    by (intro sequence_err_map)
  then show ?case
    by (intro render_eqI [where t = "if d = [] then ''{}''
          else ''{'' @ join '', '' (map ?text (sort_key fst d)) @ ''}''"]) simp
qed




lemma hash_sentiment_data_render:
  "hash_sentiment_data r = Inr (sha256 (encode_utf8 (render r)))"
  by (simp add: hash_sentiment_data_def json_dumps_render)

lemma canonicalize_render: "canonicalize r = Inr (encode_utf8 (render r))"
  by (simp add: canonicalize_def json_dumps_render)

text \<open>The digest of a record is the digest of its canonical bytes.\<close>

lemma hash_sentiment_data_canonicalize:
  "hash_sentiment_data r = and_then (canonicalize r) (\<lambda>canonical_bytes. Inr (sha256 canonical_bytes))"
  by (simp add: hash_sentiment_data_render canonicalize_render)

subsection \<open>The stand-in scheme is sound\<close>

lemma keyed_digest_scheme_sound: "ed25519_sound keyed_digest_scheme"
  by (simp add: ed25519_sound_def keyed_digest_scheme_def length_sha256)

subsection \<open>Verification with a key of 32 bytes\<close>

lemma verify_signature_32:
  "length public_key_bytes = 32 \<Longrightarrow>
   verify_signature E data_hash signature public_key_bytes =
     Inr (length signature = 64 \<and> verify_raw E public_key_bytes signature data_hash)"
  by (simp add: verify_signature_def from_public_bytes_def)

section \<open>The canonical text determines the record\<close>

subsection \<open>Escaped strings can be read back\<close>

lemma of_char_lt_256: "(of_char c :: nat) < 256"
  by (cases c) simp





















subsection \<open>Decimal texts\<close>










subsection \<open>Scalars have distinct texts without delimiters\<close>















subsection \<open>A canonical text has one reading\<close>





lemma basestring_hd: "py_encode_basestring_ascii s = CHR 0x22 # tl (py_encode_basestring_ascii s)"
  by (simp add: py_encode_basestring_ascii_def)
















subsection \<open>Records with the same fields have the same canonical text\<close>








subsection \<open>Reordering keeps the fields\<close>


subsection \<open>UTF-8 loses nothing\<close>












lemma unicode_text_str [simp]: "unicode_text (str s)"
proof -
  have "c < 0x110000 \<and> \<not> (0xD800 \<le> c \<and> c \<le> 0xDFFF)" if "c \<in> set (str s)" for c
  proof -
    from that obtain x where "c = of_char x"
      by (auto simp add: str_def)
    with of_char_lt_256 [of x] show ?thesis
      by arith
  qed
  then show ?thesis
    unfolding unicode_text_def by blast
qed


subsection \<open>Two evaluations\<close>


section \<open>The claim about canonicalization\<close>



section \<open>The claims about verification and hashing\<close>

text \<open>
  C1. The specification asks that \<open>verify\<close> never raises on untrusted input and answers
  \<open>False\<close> for a public key of the wrong length. In \<open>verify_signature\<close> the key object
  is built before the \<^verbatim>\<open>try\<close>, so only the exceptions of \<^verbatim>\<open>verify\<close> become \<open>False\<close>:
  a malformed signature gives \<open>False\<close>, but a public key that is not 32 bytes long
  raises \<^verbatim>\<open>ValueError\<close>. Here the code is evaluated at the empty key, for any digest and
  signature, and the second verification site (in \<^verbatim>\<open>verify_tampering.py\<close>) at an envelope
  whose public key is empty.
\<close>

theorem verify_signature_raises_on_wrong_length_key:
  "verify_signature E data_hash signature [] = Inl ValueError \<and>
   vt_verify_signed_data E
     [''signed_sentiment.json'' \<mapsto>
        JSON_document (JObj [(str ''data'', JObj []), (str ''signature'', JStr (str '''')),
                             (str ''public_key'', JStr (str ''''))])]
     ''signed_sentiment.json'' = Inl ValueError"
  by (simp add: verify_signature_def from_public_bytes_def vt_verify_signed_data_def
      json_load_def vt_hash_sentiment_data_def b64decode_empty)

text \<open>
  C10. The three hashing routines agree on every record: \<open>hash_sentiment_data\<close> of
  \<^verbatim>\<open>demo.py\<close> and of \<^verbatim>\<open>verify_tampering.py\<close> return the same digest, which has 32
  bytes, and \<open>hash_data\<close> of \<^verbatim>\<open>compare_hashes.py\<close> returns the lowercase hexadecimal
  text of that digest.
\<close>

theorem hashing_routines_agree:
  "vt_hash_sentiment_data r = hash_sentiment_data r \<and>
   hash_data r = and_then (hash_sentiment_data r) (\<lambda>digest. Inr (bytes_hex digest)) \<and>
   (\<exists>digest. hash_sentiment_data r = Inr digest \<and> length digest = 32)"
  by (simp add: vt_hash_sentiment_data_def hash_sentiment_data_def hash_data_def
      sha256_hexdigest_def json_dumps_render length_sha256)



text \<open>
  C3. Sign and verify round trip. For a keypair made by \<open>generate_keypair\<close> from 32
  random bytes and for every record, the signature of the record's digest under the
  private key verifies against the public key over the same digest. The curve
  arithmetic is the parameter \<open>E\<close>, assumed sound.
\<close>

theorem sign_verify_round_trip:
  assumes "ed25519_sound E" and "length entropy = 32"
  shows "\<exists>data_hash signature.
           hash_sentiment_data r = Inr data_hash \<and>
           sign_data E data_hash (kp_private_key (generate_keypair E entropy)) = Inr signature \<and>
           verify_signature E data_hash signature (kp_public_key (generate_keypair E entropy))
             = Inr True"
proof -
  let ?h = "sha256 (encode_utf8 (render r))"
  from assms have
    pk: "length (derive_public E entropy) = 32" and
    sg: "length (sign_raw E entropy ?h) = 64" and
    ok: "verify_raw E (derive_public E entropy) (sign_raw E entropy ?h) ?h"
    by (simp_all add: ed25519_sound_def)
  have "sign_data E ?h (kp_private_key (generate_keypair E entropy)) = Inr (sign_raw E entropy ?h)"
    using assms(2)
    by (simp add: sign_data_def generate_keypair_def Ed25519PrivateKey_generate_def
        from_private_bytes_def)
  moreover have "verify_signature E ?h (sign_raw E entropy ?h)
                   (kp_public_key (generate_keypair E entropy)) = Inr True"
    using pk sg ok
    by (simp add: verify_signature_32 generate_keypair_def Ed25519PrivateKey_generate_def)
  ultimately show ?thesis
    using hash_sentiment_data_render [of r] by blast
qed

text \<open>The round trip at the sample record, with the stand-in scheme and a fixed key.\<close>

theorem sign_verify_round_trip_witness:
  "ed25519_sound keyed_digest_scheme \<and> length (replicate 32 (7::byte)) = 32 \<and>
   (\<exists>data_hash signature.
      hash_sentiment_data sample_record = Inr data_hash \<and>
      sign_data keyed_digest_scheme data_hash
        (kp_private_key (generate_keypair keyed_digest_scheme (replicate 32 7))) = Inr signature \<and>
      verify_signature keyed_digest_scheme data_hash signature
        (kp_public_key (generate_keypair keyed_digest_scheme (replicate 32 7))) = Inr True)"
proof -
  have s: "ed25519_sound keyed_digest_scheme"
    by (rule keyed_digest_scheme_sound)
  have l: "length (replicate 32 (7::byte)) = 32"
    by simp
  from sign_verify_round_trip [OF s l, of sample_record] s l show ?thesis
    by blast
qed

section \<open>The claims about envelopes and keystores\<close>


text \<open>
  C6, as the code has it. For a persisted envelope whose signature and public key
  decode and whose public key has 32 bytes, \<open>verify_signed_data\<close> recomputes the digest
  from the embedded record, calls \<open>verify_signature\<close> and returns its verdict, a boolean
  alone: the record is not part of the result.
\<close>

theorem verify_signed_data_returns_verdict:
  assumes "fs filename = Some (JSON_document (JObj d))"
    and "map_of d (str ''data'') = Some sentiment_data"
    and "map_of d (str ''signature'') = Some signature_text"
    and "b64decode signature_text = Inr signature"
    and "map_of d (str ''public_key'') = Some public_key_text"
    and "b64decode public_key_text = Inr public_key"
    and "length public_key = 32"
  shows "\<exists>data_hash.
           hash_sentiment_data sentiment_data = Inr data_hash \<and>
           verify_signed_data E fs filename = verify_signature E data_hash signature public_key \<and>
           verify_signed_data E fs filename =
             Inr (length signature = 64 \<and> verify_raw E public_key signature data_hash)"
proof -
  have "extract_components fs filename = Inr (sentiment_data, signature, public_key)"
    using assms by (simp add: extract_components_def json_load_def)
  then have "verify_signed_data E fs filename =
               verify_signature E (sha256 (encode_utf8 (render sentiment_data))) signature public_key"
    by (simp add: verify_signed_data_def hash_sentiment_data_render)
  then show ?thesis
    using assms(7) by (simp add: hash_sentiment_data_render verify_signature_32)
qed

text \<open>
  An envelope at which the hypotheses hold: the sample record, an empty signature and a
  public key of 32 zero bytes. The verdict is \<open>False\<close>.
\<close>

theorem verify_signed_data_returns_verdict_witness:
  "(\<exists>data_hash.
      hash_sentiment_data sample_record = Inr data_hash \<and>
      verify_signed_data keyed_digest_scheme
        [''signed_sentiment.json'' \<mapsto>
           JSON_document (JObj [(str ''data'', sample_record), (str ''signature'', JStr (str '''')),
             (str ''public_key'', JStr (str ''AAAAAAAAAAAAAAAAAAAAAAAAAAAAAAAAAAAAAAAAAAA=''))])]
        ''signed_sentiment.json''
      = Inr (length ([] :: byte list) = 64 \<and>
             verify_raw keyed_digest_scheme (replicate 32 0) [] data_hash))"
proof -
  let ?d = "[(str ''data'', sample_record), (str ''signature'', JStr (str '''')),
             (str ''public_key'', JStr (str ''AAAAAAAAAAAAAAAAAAAAAAAAAAAAAAAAAAAAAAAAAAA=''))]"
  let ?fs = "[''signed_sentiment.json'' \<mapsto> JSON_document (JObj ?d)]"
  have 1: "?fs ''signed_sentiment.json'' = Some (JSON_document (JObj ?d))"
    by simp
  have 2: "map_of ?d (str ''data'') = Some sample_record"
    by simp
  have 3: "map_of ?d (str ''signature'') = Some (JStr (str ''''))"
    by simp
  have 4: "b64decode (JStr (str '''')) = Inr []"
    by (simp add: b64decode_empty)
  have 5: "map_of ?d (str ''public_key'') = Some (JStr (str ''AAAAAAAAAAAAAAAAAAAAAAAAAAAAAAAAAAAAAAAAAAA=''))"
    by simp
  have 6: "b64decode (JStr (str ''AAAAAAAAAAAAAAAAAAAAAAAAAAAAAAAAAAAAAAAAAAA='')) = Inr (replicate 32 0)"
    by code_simp
  have 7: "length (replicate 32 (0::byte)) = 32"
    by simp
  from verify_signed_data_returns_verdict
         [where fs = ?fs and filename = "''signed_sentiment.json''" and d = ?d
            and E = keyed_digest_scheme, OF 1 2 3 4 5 6 7]
  show ?thesis
    by blast
qed

text \<open>
  The statement of the specification, that the embedded record is returned with the
  verdict, fails: two envelopes with different records give the same result, the bare
  verdict \<open>False\<close>.
\<close>

theorem verify_signed_data_result_has_no_record:
  "verify_signed_data keyed_digest_scheme
     [''signed_sentiment.json'' \<mapsto>
        JSON_document (JObj [(str ''data'', JObj [(str ''label'', JStr (str ''POSITIVE''))]),
          (str ''signature'', JStr (str '''')),
          (str ''public_key'', JStr (str ''AAAAAAAAAAAAAAAAAAAAAAAAAAAAAAAAAAAAAAAAAAA=''))])]
     ''signed_sentiment.json'' = Inr False \<and>
   verify_signed_data keyed_digest_scheme
     [''signed_sentiment.json'' \<mapsto>
        JSON_document (JObj [(str ''data'', JObj [(str ''label'', JStr (str ''NEGATIVE''))]),
          (str ''signature'', JStr (str '''')),
          (str ''public_key'', JStr (str ''AAAAAAAAAAAAAAAAAAAAAAAAAAAAAAAAAAAAAAAAAAA=''))])]
     ''signed_sentiment.json'' = Inr False"
proof -
  have k: "b64decode (JStr (str ''AAAAAAAAAAAAAAAAAAAAAAAAAAAAAAAAAAAAAAAAAAA='')) = Inr (replicate 32 0)"
    by code_simp
  show ?thesis
    by (simp add: verify_signed_data_def extract_components_def json_load_def k b64decode_empty
        hash_sentiment_data_render verify_signature_32)
qed

text \<open>
  C5, as the code has it. \<open>load_keypair\<close> raises \<^verbatim>\<open>FileNotFoundError\<close> for a missing
  file; when \<^verbatim>\<open>json.load\<close> raises on the file, \<open>load_keypair\<close> raises that same
  exception, whichever it is; and it succeeds exactly when the file holds a dict whose
  two entries are base64 texts that decode. The keypair is then made of the decoded
  bytes, whatever their lengths.
\<close>

theorem load_keypair_outcome:
  "(fs filename = None \<longrightarrow> load_keypair fs filename = Inl FileNotFoundError) \<and>
   (fs filename = Some (Unloadable e) \<longrightarrow> load_keypair fs filename = Inl e) \<and>
   (load_keypair fs filename = Inr kp \<longleftrightarrow>
      (\<exists>d private_text public_text.
         fs filename = Some (JSON_document (JObj d)) \<and>
         map_of d (str ''private_key'') = Some private_text \<and>
         b64decode private_text = Inr (kp_private_key kp) \<and>
         map_of d (str ''public_key'') = Some public_text \<and>
         b64decode public_text = Inr (kp_public_key kp)))"
proof (intro conjI impI)
  assume "fs filename = None"
  then show "load_keypair fs filename = Inl FileNotFoundError"
    by (simp add: load_keypair_def json_load_def)
next
  assume "fs filename = Some (Unloadable e)"
  then show "load_keypair fs filename = Inl e"
    by (simp add: load_keypair_def json_load_def)
next
  show "load_keypair fs filename = Inr kp \<longleftrightarrow>
      (\<exists>d private_text public_text.
         fs filename = Some (JSON_document (JObj d)) \<and>
         map_of d (str ''private_key'') = Some private_text \<and>
         b64decode private_text = Inr (kp_private_key kp) \<and>
         map_of d (str ''public_key'') = Some public_text \<and>
         b64decode public_text = Inr (kp_public_key kp))"
  proof (cases "fs filename")
    case None
    then show ?thesis
      by (simp add: load_keypair_def json_load_def)
  next
    case (Some content)
    show ?thesis
    proof (cases content)
      case (Unloadable e')
      with Some show ?thesis
        by (simp add: load_keypair_def json_load_def)
    next
      case (JSON_document v)
      show ?thesis
      proof (cases "\<exists>d. v = JObj d")
        case False
        then have "getitem v (str ''private_key'') = Inl TypeError"
          by (cases v) simp_all
        with Some JSON_document False show ?thesis
          by (simp add: load_keypair_def json_load_def)
      next
        case True
        then obtain d where v: "v = JObj d"
          by blast
        have "load_keypair fs filename = Inr kp \<longleftrightarrow>
              (\<exists>private_text public_text.
                 map_of d (str ''private_key'') = Some private_text \<and>
                 b64decode private_text = Inr (kp_private_key kp) \<and>
                 map_of d (str ''public_key'') = Some public_text \<and>
                 b64decode public_text = Inr (kp_public_key kp))"
          using Some JSON_document v
          by (cases kp)
             (auto simp add: load_keypair_def json_load_def and_then_Inr_iff
                split: option.splits)
        with Some JSON_document v show ?thesis
          by simp
      qed
    qed
  qed
qed

text \<open>
  The three outcomes at concrete keystores: no file, a file of bytes that are not text,
  on which \<^verbatim>\<open>json.load\<close> raises \<^verbatim>\<open>UnicodeDecodeError\<close>, and a keystore with the one-byte
  keys \<^verbatim>\<open>AQ==\<close> and \<^verbatim>\<open>Ag==\<close>.
\<close>

theorem load_keypair_outcome_witness:
  "load_keypair Map.empty ''oracle_keypair.json'' = Inl FileNotFoundError \<and>
   load_keypair [''oracle_keypair.json'' \<mapsto> Unloadable UnicodeDecodeError]
     ''oracle_keypair.json'' = Inl UnicodeDecodeError \<and>
   load_keypair
     [''oracle_keypair.json'' \<mapsto>
        JSON_document (JObj [(str ''private_key'', JStr (str ''AQ=='')), (str ''public_key'', JStr (str ''Ag==''))])]
     ''oracle_keypair.json''
     = Inr \<lparr>kp_private_key = [1], kp_public_key = [2]\<rparr>"
proof -
  let ?d = "[(str ''private_key'', JStr (str ''AQ=='')), (str ''public_key'', JStr (str ''Ag==''))]"
  let ?fs = "[''oracle_keypair.json'' \<mapsto> JSON_document (JObj ?d)]"
  have a: "b64decode (JStr (str ''AQ=='')) = Inr [1]" and b: "b64decode (JStr (str ''Ag=='')) = Inr [2]"
    by code_simp+
  have "\<exists>d private_text public_text.
          ?fs ''oracle_keypair.json'' = Some (JSON_document (JObj d)) \<and>
          map_of d (str ''private_key'') = Some private_text \<and>
          b64decode private_text = Inr [1] \<and>
          map_of d (str ''public_key'') = Some public_text \<and>
          b64decode public_text = Inr [2]"
    using a b by (intro exI [of _ ?d] exI [of _ "JStr (str ''AQ=='')"] exI [of _ "JStr (str ''Ag=='')"]) simp
  then have "load_keypair ?fs ''oracle_keypair.json''
               = Inr \<lparr>kp_private_key = [1], kp_public_key = [2]\<rparr>"
    using load_keypair_outcome
      [where fs = ?fs and filename = "''oracle_keypair.json''"
         and kp = "\<lparr>kp_private_key = [1], kp_public_key = [2]\<rparr>"]
    by simp
  moreover have "load_keypair Map.empty ''oracle_keypair.json'' = Inl FileNotFoundError"
    using load_keypair_outcome [where fs = Map.empty and filename = "''oracle_keypair.json''"]
    by simp
  moreover have "load_keypair [''oracle_keypair.json'' \<mapsto> Unloadable UnicodeDecodeError]
                   ''oracle_keypair.json'' = Inl UnicodeDecodeError"
    using load_keypair_outcome
      [where fs = "[''oracle_keypair.json'' \<mapsto> Unloadable UnicodeDecodeError]"
         and filename = "''oracle_keypair.json''" and e = UnicodeDecodeError]
    by simp
  ultimately show ?thesis
    by simp
qed

text \<open>
  The statement of the specification, that loading fails when a decoded key is not
  exactly 32 bytes long, fails: a keystore whose keys decode to one byte each is loaded.
\<close>

theorem load_keypair_accepts_short_keys:
  "load_keypair
     [''oracle_keypair.json'' \<mapsto>
        JSON_document (JObj [(str ''private_key'', JStr (str ''AA=='')), (str ''public_key'', JStr (str ''AA==''))])]
     ''oracle_keypair.json''
   = Inr \<lparr>kp_private_key = [0], kp_public_key = [0]\<rparr>"
proof -
  have "b64decode (JStr (str ''AA=='')) = Inr [0]"
    by code_simp
  then show ?thesis
    by (simp add: load_keypair_def json_load_def)
qed

section \<open>The claims about the comparison of two records\<close>

lemma dict_getitem_Some:
  "key \<in> set (dict_keys d) \<Longrightarrow> \<exists>v. map_of d key = Some v \<and> dict_getitem d key = Inr v"
proof -
  assume "key \<in> set (dict_keys d)"
  then have "map_of d key \<noteq> None"
    by (simp add: dict_keys_def map_of_eq_None_iff)
  then show ?thesis
    by (auto simp add: dict_getitem_def)
qed

lemma changes_loop_complete:
  assumes "set keys \<subseteq> set (dict_keys original)" and "set keys \<subseteq> set (dict_keys tampered)"
  shows "snd (changes_loop ne original tampered keys) = None \<and>
         set (fst (changes_loop ne original tampered keys)) =
           {(k, a, b). k \<in> set keys \<and> map_of original k = Some a \<and>
                       map_of tampered k = Some b \<and> ne a b}"
  using assms
proof (induction keys)
  case Nil
  show ?case by simp
next
  case (Cons key keys)
  obtain a where a: "map_of original key = Some a" "dict_getitem original key = Inr a"
    using Cons.prems(1) dict_getitem_Some [of key original] by auto
  obtain b where b: "map_of tampered key = Some b" "dict_getitem tampered key = Inr b"
    using Cons.prems(2) dict_getitem_Some [of key tampered] by auto
  obtain printed raised where r: "changes_loop ne original tampered keys = (printed, raised)"
    by (cases "changes_loop ne original tampered keys")
  from Cons have ih: "raised = None"
    "set printed = {(k, a, b). k \<in> set keys \<and> map_of original k = Some a \<and>
                              map_of tampered k = Some b \<and> ne a b}"
    by (simp_all add: r)
  show ?case
    using a b ih by (auto simp add: r)
qed

lemma changes_loop_order:
  "subseq (map fst (fst (changes_loop ne original tampered keys))) keys"
proof (induction keys)
  case Nil
  show ?case by simp
next
  case (Cons key keys)
  then show ?case
    by (auto simp add: split: sum.splits prod.splits)
qed

lemma changes_detected_complete:
  assumes "set (dict_keys original) \<subseteq> set (dict_keys tampered)"
  shows "snd (changes_detected ne original tampered) = None \<and>
         set (fst (changes_detected ne original tampered)) =
           {(k, a, b). map_of original k = Some a \<and> map_of tampered k = Some b \<and> ne a b}"
proof -
  have "map_of original k = Some a \<Longrightarrow> k \<in> set (dict_keys original)" for k a
    by (auto simp add: dict_keys_def dest: map_of_SomeD intro: rev_image_eqI)
  then show ?thesis
    using changes_loop_complete [OF subset_refl assms, of ne]
    by (auto simp add: changes_detected_def)
qed

lemma hash_data_render: "hash_data r = Inr (sha256_hexdigest (encode_utf8 (render r)))"
  by (simp add: hash_data_def json_dumps_render)

lemma load_and_show_record:
  assumes "fs filename = Some (JSON_document (JObj loaded))"
    and "map_of loaded (str ''data'') = Some (JObj d)"
    and "str ''label'' \<in> set (dict_keys d)"
  shows "load_and_show fs filename = Inr (d, sha256_hexdigest (encode_utf8 (render (JObj d))))"
proof -
  from assms(3) obtain label where "map_of d (str ''label'') = Some label"
    using dict_getitem_Some [of "str ''label''" d] by blast
  with assms(1,2) show ?thesis
    by (simp add: load_and_show_def load_json_def json_load_def hash_data_render)
qed

text \<open>
  A record without a \<^verbatim>\<open>label\<close> key ends the run before anything is compared: printing
  the label raises \<^verbatim>\<open>KeyError\<close> inside the \<^verbatim>\<open>try\<close> block.
\<close>

lemma main_returns_early_without_label:
  assumes "fs ''signed_sentiment_original.json'' = Some (JSON_document (JObj loaded))"
    and "map_of loaded (str ''data'') = Some (JObj original)"
    and "str ''label'' \<notin> set (dict_keys original)"
  shows "main fs = Loading_failed (KeyError (str ''label''))"
proof -
  from assms(3) have "map_of original (str ''label'') = None"
    by (simp add: dict_keys_def map_of_eq_None_iff)
  with assms(1,2) show ?thesis
    by (simp add: main_def load_and_show_def load_json_def json_load_def hash_data_render)
qed

text \<open>
  C4, as the code has it. \<open>main\<close> compares the records of the two envelope files, the
  original one and the tampered one. The comparison walks the keys of the original
  record, not the union of both key sets, and it is reached only when both records have
  a \<^verbatim>\<open>label\<close> key. When the original record has a \<^verbatim>\<open>label\<close> key and every key of the
  original record is also a key of the tampered record, the run ends without an
  exception and reports exactly the fields of the original record whose two values
  differ for Python's \<^verbatim>\<open>!=\<close>; a field with equal values in both is not reported, and
  neither is a field that only the tampered record has. The records are well formed, so
  that their text can be printed.
\<close>

theorem main_reports_changed_fields_of_original:
  assumes "fs ''signed_sentiment_original.json'' = Some (JSON_document (JObj original_file))"
    and "map_of original_file (str ''data'') = Some (JObj original)"
    and "fs ''signed_sentiment.json'' = Some (JSON_document (JObj tampered_file))"
    and "map_of tampered_file (str ''data'') = Some (JObj tampered)"
    and "wf_json (JObj original)" and "wf_json (JObj tampered)"
    and "str ''label'' \<in> set (dict_keys original)"
    and "set (dict_keys original) \<subseteq> set (dict_keys tampered)"
  shows "\<exists>reported.
           main fs = Compared (hash_data (JObj original) = hash_data (JObj tampered)) reported None \<and>
           set reported =
             {(k, a, b). map_of original k = Some a \<and> map_of tampered k = Some b \<and> py_ne a b}"
proof -
  obtain reported raised where r: "changes_detected py_ne original tampered = (reported, raised)"
    by (cases "changes_detected py_ne original tampered")
  from changes_detected_complete [OF assms(8), of py_ne]
  have "raised = None" and s: "set reported =
      {(k, a, b). map_of original k = Some a \<and> map_of tampered k = Some b \<and> py_ne a b}"
    by (simp_all add: r)
  moreover from assms(7,8) have "str ''label'' \<in> set (dict_keys tampered)"
    by blast
  ultimately have "main fs =
      Compared (hash_data (JObj original) = hash_data (JObj tampered)) reported None"
    using assms(1-4,7)
    by (simp add: main_def load_and_show_record [where loaded = original_file]
        load_and_show_record [where loaded = tampered_file] r hash_data_render)
  with s show ?thesis
    by blast
qed

text \<open>The scenario of the specification: only the label was changed.\<close>

theorem main_reports_changed_fields_of_original_witness:
  "wf_json (JObj [(str ''id'', JStr (str ''1'')), (str ''label'', JStr (str ''POSITIVE''))]) \<and>
   wf_json (JObj [(str ''id'', JStr (str ''1'')), (str ''label'', JStr (str ''NEGATIVE''))]) \<and>
   str ''label'' \<in> set (dict_keys [(str ''id'', JStr (str ''1'')), (str ''label'', JStr (str ''POSITIVE''))]) \<and>
   set (dict_keys [(str ''id'', JStr (str ''1'')), (str ''label'', JStr (str ''POSITIVE''))])
     \<subseteq> set (dict_keys [(str ''id'', JStr (str ''1'')), (str ''label'', JStr (str ''NEGATIVE''))]) \<and>
   (\<exists>reported.
      main [''signed_sentiment_original.json'' \<mapsto>
              JSON_document (JObj [(str ''data'',
                JObj [(str ''id'', JStr (str ''1'')), (str ''label'', JStr (str ''POSITIVE''))])]),
            ''signed_sentiment.json'' \<mapsto>
              JSON_document (JObj [(str ''data'',
                JObj [(str ''id'', JStr (str ''1'')), (str ''label'', JStr (str ''NEGATIVE''))])])]
        = Compared
            (hash_data (JObj [(str ''id'', JStr (str ''1'')), (str ''label'', JStr (str ''POSITIVE''))])
               = hash_data (JObj [(str ''id'', JStr (str ''1'')), (str ''label'', JStr (str ''NEGATIVE''))]))
            reported None \<and>
      set reported = {(str ''label'', JStr (str ''POSITIVE''), JStr (str ''NEGATIVE''))})"
proof -
  let ?original = "[(str ''id'', JStr (str ''1'')), (str ''label'', JStr (str ''POSITIVE''))]"
  let ?tampered = "[(str ''id'', JStr (str ''1'')), (str ''label'', JStr (str ''NEGATIVE''))]"
  let ?original_file = "[(str ''data'', JObj ?original)]"
  let ?tampered_file = "[(str ''data'', JObj ?tampered)]"
  let ?fs = "[''signed_sentiment_original.json'' \<mapsto> JSON_document (JObj ?original_file),
              ''signed_sentiment.json'' \<mapsto> JSON_document (JObj ?tampered_file)]"
  have 1: "?fs ''signed_sentiment_original.json'' = Some (JSON_document (JObj ?original_file))"
    by simp
  have 2: "map_of ?original_file (str ''data'') = Some (JObj ?original)"
    by simp
  have 3: "?fs ''signed_sentiment.json'' = Some (JSON_document (JObj ?tampered_file))"
    by simp
  have 4: "map_of ?tampered_file (str ''data'') = Some (JObj ?tampered)"
    by simp
  have 5: "wf_json (JObj ?original)" and 6: "wf_json (JObj ?tampered)"
    by simp_all
  have 7: "str ''label'' \<in> set (dict_keys ?original)"
    by (simp add: dict_keys_def)
  have 8: "set (dict_keys ?original) \<subseteq> set (dict_keys ?tampered)"
    by (simp add: dict_keys_def)
  have "{(k, a, b). map_of ?original k = Some a \<and> map_of ?tampered k = Some b \<and> py_ne a b}
          = {(str ''label'', JStr (str ''POSITIVE''), JStr (str ''NEGATIVE''))}"
    by (auto simp add: py_ne_def split: if_splits)
  with main_reports_changed_fields_of_original
         [where fs = ?fs and original_file = ?original_file and tampered_file = ?tampered_file,
          OF 1 2 3 4 5 6 7 8]
  have "\<exists>reported.
      main ?fs = Compared (hash_data (JObj ?original) = hash_data (JObj ?tampered)) reported None \<and>
      set reported = {(str ''label'', JStr (str ''POSITIVE''), JStr (str ''NEGATIVE''))}"
    by simp
  with 5 6 7 8 show ?thesis
    by (intro conjI)
qed

text \<open>
  The statement of the specification, that every field of the union of both key sets
  whose value differs is reported, fails: a field that only the second record has is
  specified to differ, and the run reports nothing.
\<close>

theorem main_misses_added_field:
  "main [''signed_sentiment_original.json'' \<mapsto>
           JSON_document (JObj [(str ''data'', JObj [(str ''label'', JStr (str ''POSITIVE''))])]),
         ''signed_sentiment.json'' \<mapsto>
           JSON_document (JObj [(str ''data'',
             JObj [(str ''label'', JStr (str ''POSITIVE'')), (str ''extra'', JStr (str ''x''))])])]
     = Compared
         (hash_data (JObj [(str ''label'', JStr (str ''POSITIVE''))])
            = hash_data (JObj [(str ''label'', JStr (str ''POSITIVE'')),
                               (str ''extra'', JStr (str ''x''))]))
         [] None \<and>
   spec_differing_fields py_ne [(str ''label'', JStr (str ''POSITIVE''))]
     [(str ''label'', JStr (str ''POSITIVE'')), (str ''extra'', JStr (str ''x''))] = [str ''extra'']"
proof
  show "main [''signed_sentiment_original.json'' \<mapsto>
           JSON_document (JObj [(str ''data'', JObj [(str ''label'', JStr (str ''POSITIVE''))])]),
         ''signed_sentiment.json'' \<mapsto>
           JSON_document (JObj [(str ''data'',
             JObj [(str ''label'', JStr (str ''POSITIVE'')), (str ''extra'', JStr (str ''x''))])])]
     = Compared
         (hash_data (JObj [(str ''label'', JStr (str ''POSITIVE''))])
            = hash_data (JObj [(str ''label'', JStr (str ''POSITIVE'')),
                               (str ''extra'', JStr (str ''x''))]))
         [] None"
    by (simp add: main_def load_and_show_def load_json_def json_load_def hash_data_render
        changes_detected_def dict_keys_def dict_getitem_def py_ne_def)
  show "spec_differing_fields py_ne [(str ''label'', JStr (str ''POSITIVE''))]
     [(str ''label'', JStr (str ''POSITIVE'')), (str ''extra'', JStr (str ''x''))] = [str ''extra'']"
    by code_simp
qed

text \<open>
  C8, as the code has it. The fields are reported in the insertion order of the
  original record's keys: the keys of the report are a subsequence of those keys.
\<close>

theorem changes_detected_in_insertion_order:
  "subseq (map fst (fst (changes_detected ne original tampered))) (dict_keys original)"
  by (simp add: changes_detected_def changes_loop_order)

text \<open>
  The statement of the specification, that the report is in lexicographic key order,
  fails: for a record whose keys were inserted as \<^verbatim>\<open>label\<close>, \<^verbatim>\<open>id\<close> the report keeps
  that order, where the specified order is \<^verbatim>\<open>id\<close>, \<^verbatim>\<open>label\<close>.
\<close>

theorem changes_detected_not_in_key_order:
  "map fst (fst (changes_detected (\<noteq>) [(str ''label'', ''POSITIVE''), (str ''id'', ''1'')]
                   [(str ''label'', ''NEGATIVE''), (str ''id'', ''2'')])) = [str ''label'', str ''id''] \<and>
   spec_differing_fields (\<noteq>) [(str ''label'', ''POSITIVE''), (str ''id'', ''1'')]
     [(str ''label'', ''NEGATIVE''), (str ''id'', ''2'')] = [str ''id'', str ''label'']"
  by code_simp

end
